theory Spec2Isabelle
  imports Main "HOL-Library.Log_Nat"
begin

section \<open>JavaScript numbers\<close>

text \<open>
  A JavaScript Number is an IEEE 754 binary64 value: a finite double, given by the
  rational it denotes, one of the two infinities, or \<^verbatim>\<open>NaN\<close>.  (The sign of zero is
  not kept: it has no effect on a sum's value.)  A finite double is a rational \<open>x\<close>
  with \<open>round64 x = Fin x\<close>.
\<close>

datatype number = Fin rat | PosInfinity | NegInfinity | NaN

text \<open>Rounding to the nearest integer, ties to the even one.\<close>

definition roundHalfEven :: "rat \<Rightarrow> int" where
  "roundHalfEven y =
     (let f = \<lfloor>y\<rfloor>; d = y - of_int f
      in if d < 1 / 2 then f else if 1 / 2 < d then f + 1 else if even f then f else f + 1)"

text \<open>
  The binary exponent of a rational \<open>x \<noteq> 0\<close>: the \<open>e\<close> with
  \<open>2 powi e \<le> \<bar>x\<bar>\<close> and \<open>\<bar>x\<bar> < 2 powi (e + 1)\<close>, found from the bit lengths of numerator
  and denominator.
\<close>

definition ilog2 :: "rat \<Rightarrow> int" where
  "ilog2 x =
     (let (p, q) = quotient_of \<bar>x\<bar>; e0 = bitlen p - bitlen q
      in if 2 powi e0 \<le> \<bar>x\<bar> then e0 else e0 - 1)"

text \<open>
  Rounding a rational to binary64, to nearest and ties to even: 53 significant bits,
  the spacing of the subnormal numbers below \<open>2 powi (- 1022)\<close>, an infinity when the
  rounded value reaches \<open>2 ^ 1024\<close>.
\<close>

definition round64 :: "rat \<Rightarrow> number" where
  "round64 x =
     (if x = 0 then Fin 0
      else let k = max (ilog2 x) (- 1022) - 52;
               r = of_int (roundHalfEven (x / 2 powi k)) * 2 powi k
           in if 2 ^ 1024 \<le> r then PosInfinity
              else if r \<le> - (2 ^ 1024) then NegInfinity
              else Fin r)"

text \<open>
  JavaScript's \<^verbatim>\<open>+\<close> on two Numbers: the exact sum of two finite doubles, rounded;
  \<^verbatim>\<open>NaN\<close> is absorbing, and so is an infinity except against the opposite one.
\<close>

fun jsAdd :: "number \<Rightarrow> number \<Rightarrow> number" where
  "jsAdd (Fin a) (Fin b) = round64 (a + b)"
| "jsAdd NaN y = NaN"
| "jsAdd x NaN = NaN"
| "jsAdd PosInfinity NegInfinity = NaN"
| "jsAdd NegInfinity PosInfinity = NaN"
| "jsAdd PosInfinity y = PosInfinity"
| "jsAdd NegInfinity y = NegInfinity"
| "jsAdd x PosInfinity = PosInfinity"
| "jsAdd x NegInfinity = NegInfinity"

section \<open>Data model\<close>

text \<open>
  The order routes (the second file held in \<^verbatim>\<open>src/routes/book.route.js\<close>, lines 343-479)
  talk to three MongoDB collections through Mongoose models: \<^verbatim>\<open>UserModel\<close>,
  \<^verbatim>\<open>BookModel\<close> and \<^verbatim>\<open>OrderModel\<close>.  A collection is a list of documents
  in its natural order; the stores are taken to be reachable, so the only exceptions
  in the model are the ones Mongoose raises from the values it is given.

  An \<^verbatim>\<open>ObjectId\<close> is a 12-byte value; only its identity matters here, so it is a
  natural number.
\<close>

type_synonym oid = nat

text \<open>
  What a client sends for one reference in the JSON body of \<^verbatim>\<open>POST /api/order\<close>:
  either a string that Mongoose casts to an \<^verbatim>\<open>ObjectId\<close> (24 hex digits), or any
  other string such as \<^verbatim>\<open>"nonexistent"\<close>, on which the cast throws.
\<close>

datatype ref = Hex oid | Malformed string

text \<open>
  The exceptions of Mongoose that reach the \<^verbatim>\<open>catch\<close> of a handler: a
  \<^verbatim>\<open>CastError\<close> thrown by a query, and the \<^verbatim>\<open>ValidationError\<close> with which
  \<^verbatim>\<open>save()\<close> rejects.  A \<^verbatim>\<open>CastError\<close> carries the path it is about, a
  \<^verbatim>\<open>ValidationError\<close> the paths that failed, in the order of the schema.
\<close>

datatype error = CastError string | ValidationError "string list"

text \<open>
  Modelled from the spec: \<^verbatim>\<open>models/user.model.js\<close> and \<^verbatim>\<open>models/book.model.js\<close>
  are not under \<^verbatim>\<open>src/\<close>.  The fields are the ones of the spec's data model (section 3),
  under the names the routes use (\<^verbatim>\<open>name, email, password, isAdmin\<close> in
  \<^verbatim>\<open>user.route.js\<close>; \<^verbatim>\<open>title, author, category, price, quantity\<close> in
  \<^verbatim>\<open>book.route.js\<close>).  A price is a JavaScript Number, as defined above.
\<close>

record user_doc =
  user_id :: oid
  name :: string
  email :: string
  password :: string
  isAdmin :: bool

record book_doc =
  book_id :: oid
  title :: string
  author :: string
  category :: string
  price :: number
  quantity :: nat

text \<open>
  \<^verbatim>\<open>orderSchema\<close> of \<^verbatim>\<open>src/models/order.model.js\<close>: \<^verbatim>\<open>user\<close> and \<^verbatim>\<open>books\<close> are
  each ONE \<^verbatim>\<open>ObjectId\<close> (neither is an array, neither is required), \<^verbatim>\<open>totalAmount\<close>
  is a number.
\<close>

record order_doc =
  order_id :: oid
  user :: "oid option"
  books :: "oid option"
  totalAmount :: number

text \<open>
  \<^verbatim>\<open>populatedBooking\<close> of \<^verbatim>\<open>GET /api/orders\<close>: the order as a plain object, with
  \<^verbatim>\<open>user\<close> and \<^verbatim>\<open>books\<close> overwritten by what \<^verbatim>\<open>findById\<close> returned
  (a document or \<^verbatim>\<open>null\<close>).
\<close>

record populatedBooking =
  populated_id :: oid
  populated_user :: "user_doc option"
  populated_books :: "book_doc option"
  populated_totalAmount :: number

record db =
  UserModel :: "user_doc list"
  BookModel :: "book_doc list"
  OrderModel :: "order_doc list"

datatype body =
    Message string
  | ErrorMessage error
  | OrderPlaced string order_doc
  | Orders "populatedBooking list"

datatype response = Response (status: nat) (body: body)

section \<open>Mongoose operations\<close>

text \<open>
  Casting a request value to the \<^verbatim>\<open>ObjectId\<close> of a path: a well-formed string gives
  its \<^verbatim>\<open>ObjectId\<close>, anything else throws \<^verbatim>\<open>CastError\<close> for that path.
\<close>

fun castObjectId :: "string \<Rightarrow> ref \<Rightarrow> error + oid" where
  "castObjectId path (Hex i) = Inr i"
| "castObjectId path (Malformed v) = Inl (CastError path)"

text \<open>
  Casting the array of the \<^verbatim>\<open>$in\<close> operator: every element is cast, the first one
  that cannot be cast throws.
\<close>

fun castIn :: "string \<Rightarrow> ref list \<Rightarrow> error + oid list" where
  "castIn path [] = Inr []"
| "castIn path (r # rs) =
     (case castObjectId path r of
        Inl e \<Rightarrow> Inl e
      | Inr i \<Rightarrow> (case castIn path rs of Inl e \<Rightarrow> Inl e | Inr is \<Rightarrow> Inr (i # is)))"

text \<open>
  Casting an ARRAY to a path whose schema type is one \<^verbatim>\<open>ObjectId\<close>, which is what
  \<^verbatim>\<open>new OrderModel({ books: books })\<close> does with the \<^verbatim>\<open>books\<close> of the request.
  Mongoose casts a value that is no \<^verbatim>\<open>ObjectId\<close> through its \<^verbatim>\<open>toString()\<close>; the
  \<^verbatim>\<open>toString()\<close> of an array joins its elements with commas.  So a one-element array
  casts as its element does, the empty array gives the empty string, and two or more
  elements give a string with a comma: neither of these is an \<^verbatim>\<open>ObjectId\<close>.
\<close>

fun castArrayToObjectId :: "string \<Rightarrow> ref list \<Rightarrow> error + oid" where
  "castArrayToObjectId path [r] = castObjectId path r"
| "castArrayToObjectId path rs = Inl (CastError path)"

text \<open>\<^verbatim>\<open>Model.findById(id)\<close> with an \<^verbatim>\<open>ObjectId\<close>: the document with that \<^verbatim>\<open>_id\<close>, or \<^verbatim>\<open>null\<close>.\<close>

definition findOne :: "('d \<Rightarrow> oid) \<Rightarrow> 'd list \<Rightarrow> oid \<Rightarrow> 'd option" where
  "findOne key coll i = find (\<lambda>d. key d = i) coll"

text \<open>
  \<^verbatim>\<open>Model.findById(v)\<close> with a value of the request: the value is cast first, and the
  query throws when it cannot be.
\<close>

definition findById :: "('d \<Rightarrow> oid) \<Rightarrow> 'd list \<Rightarrow> ref \<Rightarrow> error + 'd option" where
  "findById key coll r =
     (case castObjectId ''_id'' r of Inl e \<Rightarrow> Inl e | Inr i \<Rightarrow> Inr (findOne key coll i))"

text \<open>
  \<^verbatim>\<open>Model.findById(order.user)\<close>, \<^verbatim>\<open>Model.findById(order.books)\<close>: the argument is a
  field of a stored order, an \<^verbatim>\<open>ObjectId\<close> or absent; for an absent one Mongoose
  queries \<^verbatim>\<open>{ _id: null }\<close>, which no document matches.
\<close>

definition findByIdStored :: "('d \<Rightarrow> oid) \<Rightarrow> 'd list \<Rightarrow> oid option \<Rightarrow> 'd option" where
  "findByIdStored key coll f = (case f of None \<Rightarrow> None | Some i \<Rightarrow> findOne key coll i)"

text \<open>
  \<^verbatim>\<open>BookModel.find({ _id: { $in: books } })\<close>: after the cast, every document of the
  collection whose \<^verbatim>\<open>_id\<close> is among the given ones, once each, in collection order.
\<close>

definition findIn :: "book_doc list \<Rightarrow> ref list \<Rightarrow> error + book_doc list" where
  "findIn coll rs =
     (case castIn ''_id'' rs of
        Inl e \<Rightarrow> Inl e
      | Inr ids \<Rightarrow> Inr (filter (\<lambda>d. book_id d \<in> set ids) coll))"

text \<open>
  Casting a Number to a path of schema type \<^verbatim>\<open>Number\<close>: every Number but
  \<^verbatim>\<open>NaN\<close> is kept, \<^verbatim>\<open>NaN\<close> fails the cast.
\<close>

fun castNumber :: "string \<Rightarrow> number \<Rightarrow> error + number" where
  "castNumber path NaN = Inl (CastError path)"
| "castNumber path v = Inr v"

fun failedPaths :: "error + 'a \<Rightarrow> string list" where
  "failedPaths (Inl (CastError path)) = [path]"
| "failedPaths c = []"

text \<open>
  \<^verbatim>\<open>new OrderModel({ user, books, totalAmount })\<close> followed by \<^verbatim>\<open>save()\<close>.  The
  constructor casts each value to its schema type and records a failed cast; \<^verbatim>\<open>save()\<close>
  validates first and rejects with a \<^verbatim>\<open>ValidationError\<close> when a cast has failed, so
  nothing is written.  The \<^verbatim>\<open>_id\<close> that the constructor generates is the argument
  \<open>newId\<close>.
\<close>

definition newOrderModel :: "oid \<Rightarrow> ref \<Rightarrow> ref list \<Rightarrow> number \<Rightarrow> error + order_doc" where
  "newOrderModel newId usr bks amount =
     (let cu = castObjectId ''user'' usr;
          cb = castArrayToObjectId ''books'' bks;
          ct = castNumber ''totalAmount'' amount
      in case (cu, cb, ct) of
           (Inr u, Inr b, Inr t) \<Rightarrow>
             Inr \<lparr>order_id = newId, user = Some u, books = Some b, totalAmount = t\<rparr>
         | _ \<Rightarrow> Inl (ValidationError (failedPaths cu @ failedPaths cb @ failedPaths ct)))"

section \<open>The order routes\<close>

text \<open>
  \<^verbatim>\<open>orderRouter.post("/order")\<close>, lines 405-418 of the handler: the two checks and the
  total, which \<^verbatim>\<open>reduce\<close> adds up from 0 in the order of \<^verbatim>\<open>booksPresent\<close>.  \<open>Inl\<close> is the response of an early \<^verbatim>\<open>return\<close> (or of the \<^verbatim>\<open>catch\<close>),
  \<open>Inr\<close> the \<^verbatim>\<open>totalAmount\<close> with which the handler goes on.
\<close>

definition validateOrder :: "db \<Rightarrow> ref \<Rightarrow> ref list \<Rightarrow> response + number" where
  "validateOrder s usr bks =
     (case findById user_id (UserModel s) usr of
        Inl e \<Rightarrow> Inl (Response 500 (ErrorMessage e))
      | Inr None \<Rightarrow> Inl (Response 404 (Message ''User not found''))
      | Inr (Some userPresent) \<Rightarrow>
         (case findIn (BookModel s) bks of
            Inl e \<Rightarrow> Inl (Response 500 (ErrorMessage e))
          | Inr booksPresent \<Rightarrow>
             if length booksPresent \<noteq> length bks
             then Inl (Response 400 (Message ''Books not found''))
             else Inr (foldl (\<lambda>total book. jsAdd total (price book)) (Fin 0) booksPresent)))"

text \<open>
  The whole handler (lines 401-433), called \<open>placeOrder\<close> in the spec: the checks, then
  the new order is constructed and saved, and is the body of the 201 response.  The
  result is the response and the database after the request.
\<close>

definition placeOrder :: "oid \<Rightarrow> db \<Rightarrow> ref \<Rightarrow> ref list \<Rightarrow> response \<times> db" where
  "placeOrder newId s usr bks =
     (case validateOrder s usr bks of
        Inl r \<Rightarrow> (r, s)
      | Inr amount \<Rightarrow>
         (case newOrderModel newId usr bks amount of
            Inl e \<Rightarrow> (Response 500 (ErrorMessage e), s)
          | Inr newOrder \<Rightarrow>
             (Response 201 (OrderPlaced ''Order placed successfully'' newOrder),
              s\<lparr>OrderModel := OrderModel s @ [newOrder]\<rparr>)))"

text \<open>
  \<^verbatim>\<open>orderRouter.get("/orders")\<close> (lines 457-475), called \<open>listOrdersEnriched\<close> in the
  spec.  \<open>populate\<close> is the callback of \<^verbatim>\<open>orders.map\<close>; \<^verbatim>\<open>Promise.all\<close> keeps the
  order of the array.  The handler writes nothing: the database is returned as it was.
\<close>

definition populate :: "db \<Rightarrow> order_doc \<Rightarrow> populatedBooking" where
  "populate s ord =
     \<lparr>populated_id = order_id ord,
      populated_user = findByIdStored user_id (UserModel s) (user ord),
      populated_books = findByIdStored book_id (BookModel s) (books ord),
      populated_totalAmount = totalAmount ord\<rparr>"

definition listOrdersEnriched :: "db \<Rightarrow> response \<times> db" where
  "listOrdersEnriched s = (Response 200 (Orders (map (populate s) (OrderModel s))), s)"

section \<open>Concrete databases\<close>

definition U1 :: user_doc where
  "U1 = \<lparr>user_id = 1, name = ''Asha'', email = ''asha@example.com'',
         password = ''hash'', isAdmin = False\<rparr>"

definition B1 :: book_doc where
  "B1 = \<lparr>book_id = 10, title = ''Book 1'', author = ''Author 1'',
         category = ''Fiction'', price = Fin 50, quantity = 3\<rparr>"

definition B2 :: book_doc where
  "B2 = \<lparr>book_id = 11, title = ''Book 2'', author = ''Author 2'',
         category = ''Fiction'', price = Fin 60, quantity = 1\<rparr>"

definition db0 :: db where
  "db0 = \<lparr>UserModel = [U1], BookModel = [B1, B2], OrderModel = []\<rparr>"

definition db1 :: db where
  "db1 = \<lparr>UserModel = [U1], BookModel = [B1, B2],
          OrderModel =
            [\<lparr>order_id = 100, user = Some 1, books = Some 10, totalAmount = Fin 50\<rparr>,
             \<lparr>order_id = 101, user = Some 2, books = Some 12, totalAmount = Fin 60\<rparr>,
             \<lparr>order_id = 102, user = None, books = None, totalAmount = Fin 0\<rparr>]\<rparr>"

text \<open>A catalog with a price at the edge of the integers that binary64 holds exactly.\<close>

definition B3 :: book_doc where
  "B3 = \<lparr>book_id = 12, title = ''Book 3'', author = ''Author 3'',
         category = ''Rare'', price = Fin (2 ^ 53), quantity = 1\<rparr>"

definition B4 :: book_doc where
  "B4 = \<lparr>book_id = 13, title = ''Book 4'', author = ''Author 4'',
         category = ''Fiction'', price = Fin 1, quantity = 1\<rparr>"

definition db2 :: db where
  "db2 = \<lparr>UserModel = [U1], BookModel = [B3, B4], OrderModel = []\<rparr>"

section \<open>Notions of the specification\<close>

text \<open>The price of the book a reference resolves to (0 when it resolves to none).\<close>

definition priceOf :: "db \<Rightarrow> oid \<Rightarrow> number" where
  "priceOf s i = (case findOne book_id (BookModel s) i of None \<Rightarrow> Fin 0 | Some d \<Rightarrow> price d)"

text \<open>A Number that is a non-negative integer, and the rational a Number denotes.\<close>

definition nonNegInteger :: "number \<Rightarrow> bool" where
  "nonNegInteger v = (case v of Fin x \<Rightarrow> 0 \<le> x \<and> of_int \<lfloor>x\<rfloor> = x | _ \<Rightarrow> False)"

definition exactValue :: "number \<Rightarrow> rat" where
  "exactValue v = (case v of Fin x \<Rightarrow> x | _ \<Rightarrow> 0)"

text \<open>
  The exact sum, in the rationals, of the prices of the books that the references
  resolve to, each reference counted as often as it occurs.
\<close>

definition exactTotal :: "db \<Rightarrow> oid list \<Rightarrow> rat" where
  "exactTotal s bs = sum_list (map (\<lambda>b. exactValue (priceOf s b)) bs)"

text \<open>
  A stored reference resolves in a collection when it is present and some document of
  the collection has it as \<^verbatim>\<open>_id\<close>.
\<close>

definition resolves :: "('d \<Rightarrow> oid) \<Rightarrow> 'd list \<Rightarrow> oid option \<Rightarrow> bool" where
  "resolves key coll f = (case f of None \<Rightarrow> False | Some i \<Rightarrow> i \<in> key ` set coll)"

text \<open>
  MongoDB keeps \<^verbatim>\<open>_id\<close> unique within a collection; the book catalog is the one
  collection that is read by a set query, where this matters.
\<close>

definition uniqueIds :: "db \<Rightarrow> bool" where
  "uniqueIds s = distinct (map book_id (BookModel s))"

section \<open>Lemmas on JavaScript numbers\<close>

lemma roundHalfEven_of_int: "roundHalfEven (of_int m) = m"
  by (simp add: roundHalfEven_def)

lemma quotient_of_abs_int: "quotient_of \<bar>of_int n :: rat\<bar> = (\<bar>n\<bar>, 1)"
proof -
  have "\<bar>of_int n :: rat\<bar> = Rat.of_int \<bar>n\<bar>"
    by (simp add: Rat.of_int_def)
  then show ?thesis
    by (simp only: quotient_of_int)
qed

lemma ilog2_of_int:
  assumes "n \<noteq> 0"
  shows "ilog2 (of_int n) = bitlen \<bar>n\<bar> - 1"
proof -
  have pos: "0 < \<bar>n\<bar>" using assms by simp
  have b1: "bitlen 1 = 1"
    by (simp add: bitlen_alt_def)
  have ge: "1 \<le> bitlen \<bar>n\<bar>"
    using pos by (simp add: bitlen_alt_def)
  have "(2::int) ^ nat (bitlen \<bar>n\<bar> - 1) \<le> \<bar>n\<bar>"
    using bitlen_bounds [OF pos] by simp
  then have "(of_int ((2::int) ^ nat (bitlen \<bar>n\<bar> - 1)) :: rat) \<le> of_int \<bar>n\<bar>"
    by (simp only: of_int_le_iff)
  then have "(2::rat) powi (bitlen \<bar>n\<bar> - 1) \<le> \<bar>of_int n\<bar>"
    using ge by (simp add: power_int_nonneg_exp)
  then show ?thesis
    by (simp add: ilog2_def quotient_of_abs_int b1)
qed


lemma scaled_int:
  assumes "n \<noteq> 0" and "\<bar>n\<bar> \<le> 2 ^ 53"
  shows "\<exists>m. (of_int n :: rat) / 2 powi (bitlen \<bar>n\<bar> - 53) = of_int m"
proof -
  let ?e = "bitlen \<bar>n\<bar> - 1"
  have pos: "0 < \<bar>n\<bar>" using assms(1) by simp
  have lo: "(2::int) ^ nat ?e \<le> \<bar>n\<bar>"
    using bitlen_bounds [OF pos] by simp
  have ge: "1 \<le> bitlen \<bar>n\<bar>"
    using pos by (simp add: bitlen_alt_def)
  show ?thesis
  proof (cases "?e \<le> 52")
    case True
    then have "(2::rat) powi (bitlen \<bar>n\<bar> - 53) = 1 / 2 ^ nat (53 - bitlen \<bar>n\<bar>)"
      by (simp add: power_int_def field_simps)
    then have "(of_int n :: rat) / 2 powi (bitlen \<bar>n\<bar> - 53)
        = of_int (n * 2 ^ nat (53 - bitlen \<bar>n\<bar>))"
      by simp
    then show ?thesis ..
  next
    case False
    then have "53 \<le> nat ?e" by simp
    then have "(2::int) ^ 53 \<le> 2 ^ nat ?e"
      by (rule power_increasing) simp
    with lo assms(2) have n: "\<bar>n\<bar> = 2 ^ 53" and pe: "(2::int) ^ nat ?e = 2 ^ 53"
      by linarith+
    from pe have "nat ?e = 53"
      by (simp only: power_inject_exp [of "2::int"])
    then have e: "bitlen \<bar>n\<bar> - 53 = 1"
      by linarith
    from n have "n = 2 ^ 53 \<or> n = - (2 ^ 53)"
      by linarith
    then have "n = 2 * (n div 2)"
      by auto
    then have "(of_int n :: rat) = 2 * of_int (n div 2)"
      by (metis of_int_mult of_int_numeral)
    then have "(of_int n :: rat) / 2 powi (bitlen \<bar>n\<bar> - 53) = of_int (n div 2)"
      by (simp add: e)
    then show ?thesis ..
  qed
qed

lemma round64_of_int:
  assumes "\<bar>n\<bar> \<le> 2 ^ 53"
  shows "round64 (of_int n) = Fin (of_int n)"
proof (cases "n = 0")
  case True
  then show ?thesis by (simp add: round64_def)
next
  case False
  let ?k = "bitlen \<bar>n\<bar> - 53"
  have pos: "0 < \<bar>n\<bar>" using False by simp
  have ge: "1 \<le> bitlen \<bar>n\<bar>"
    using pos by (simp add: bitlen_alt_def)
  then have k: "max (ilog2 (of_int n)) (- 1022) - 52 = ?k"
    by (simp add: ilog2_of_int [OF False])
  from scaled_int [OF False assms] obtain m
    where m: "(of_int n :: rat) / 2 powi ?k = of_int m" ..
  have nz: "(2::rat) powi ?k \<noteq> 0"
    by (simp add: power_int_not_zero)
  from m nz have r: "of_int (roundHalfEven (of_int n / 2 powi ?k)) * 2 powi ?k = (of_int n :: rat)"
    by (simp add: roundHalfEven_of_int field_simps)
  have "\<bar>of_int n :: rat\<bar> \<le> 2 ^ 53"
    using assms by (metis of_int_abs of_int_le_iff of_int_numeral of_int_power)
  moreover have "(2::rat) ^ 53 < 2 ^ 1024"
    by (rule power_strict_increasing) simp_all
  ultimately have b: "\<not> (2::rat) ^ 1024 \<le> of_int n" "\<not> (of_int n :: rat) \<le> - (2 ^ 1024)"
    by linarith+
  from False have z: "((of_int n :: rat) = 0) = False" by simp
  show ?thesis
    by (simp only: round64_def z k Let_def r b if_False)
qed

lemma bitlen_tie: "bitlen 9007199254740993 = 54"
  by code_simp

lemma round64_tie: "round64 (2 ^ 53 + 1) = Fin (2 ^ 53)"
proof -
  have x: "(2::rat) ^ 53 + 1 = 9007199254740993"
    by simp
  have i: "ilog2 9007199254740993 = 53"
    using ilog2_of_int [of 9007199254740993] by (simp add: bitlen_tie)
  have f: "\<lfloor>9007199254740993 / 2 :: rat\<rfloor> = 4503599627370496"
    by (simp add: floor_eq_iff)
  have h: "roundHalfEven (9007199254740993 / 2) = 4503599627370496"
    by (simp add: roundHalfEven_def f Let_def)
  show ?thesis
    unfolding x round64_def i
    by (simp add: h Let_def)
qed

lemma round64_Ints:
  assumes "x \<in> \<int>" and "\<bar>x\<bar> \<le> 2 ^ 53"
  shows "round64 x = Fin x"
proof -
  from assms(1) obtain n where x: "x = of_int n"
    by (rule Ints_cases)
  with assms(2) have "(of_int \<bar>n\<bar> :: rat) \<le> of_int (2 ^ 53)"
    by simp
  then have "\<bar>n\<bar> \<le> 2 ^ 53"
    by (simp only: of_int_le_iff)
  then show ?thesis
    unfolding x by (rule round64_of_int)
qed

lemma nonNegInteger_iff: "nonNegInteger v \<longleftrightarrow> (\<exists>x. v = Fin x \<and> 0 \<le> x \<and> x \<in> \<int>)"
proof (cases v)
  case (Fin x)
  have "of_int \<lfloor>x\<rfloor> = x \<longleftrightarrow> x \<in> \<int>"
    by (metis Ints_of_int Ints_cases floor_of_int)
  with Fin show ?thesis
    by (simp add: nonNegInteger_def)
qed (simp_all add: nonNegInteger_def)

lemma exactValue_nonneg: "nonNegInteger v \<Longrightarrow> 0 \<le> exactValue v"
  by (auto simp: nonNegInteger_iff exactValue_def)

lemma sum_exactValue_nonneg:
  "\<forall>d \<in> set ds. nonNegInteger (price d)
     \<Longrightarrow> 0 \<le> sum_list (map (\<lambda>d. exactValue (price d)) ds)"
  by (induction ds) (simp_all add: exactValue_nonneg)

lemma foldl_jsAdd_exact:
  assumes "\<forall>d \<in> set ds. nonNegInteger (price d)"
    and "0 \<le> a" and "a \<in> \<int>"
    and "a + sum_list (map (\<lambda>d. exactValue (price d)) ds) \<le> 2 ^ 53"
  shows "foldl (\<lambda>total book. jsAdd total (price book)) (Fin a) ds
       = Fin (a + sum_list (map (\<lambda>d. exactValue (price d)) ds))"
  using assms
proof (induction ds arbitrary: a)
  case Nil
  then show ?case by simp
next
  case (Cons d ds)
  from Cons.prems(1) obtain p where p: "price d = Fin p" "0 \<le> p" "p \<in> \<int>"
    by (auto simp: nonNegInteger_iff)
  have rest: "0 \<le> sum_list (map (\<lambda>d. exactValue (price d)) ds)"
    using Cons.prems(1) by (intro sum_exactValue_nonneg) simp
  have ev: "exactValue (price d) = p"
    by (simp add: p exactValue_def)
  have bound: "a + p + sum_list (map (\<lambda>d. exactValue (price d)) ds) \<le> 2 ^ 53"
    using Cons.prems(4) by (simp add: ev)
  have "\<bar>a + p\<bar> \<le> 2 ^ 53"
    using bound rest Cons.prems(2) p(2) by linarith
  moreover have int: "a + p \<in> \<int>"
    using Cons.prems(3) p(3) by simp
  ultimately have r: "round64 (a + p) = Fin (a + p)"
    by (intro round64_Ints)
  have "foldl (\<lambda>total book. jsAdd total (price book)) (Fin (a + p)) ds
      = Fin (a + p + sum_list (map (\<lambda>d. exactValue (price d)) ds))"
    using Cons.prems(1,2) p(2) int bound by (intro Cons.IH) simp_all
  then show ?case
    by (simp add: p r exactValue_def add.assoc)
qed

section \<open>Lemmas on the Mongoose operations\<close>

lemma castIn_Hex: "castIn path (map Hex is) = Inr is"
  by (induction "is") simp_all

lemma findOne_None: "findOne key coll i = None \<longleftrightarrow> i \<notin> key ` set coll"
  by (auto simp: findOne_def find_None_iff)

lemma findOne_Some: "findOne key coll i = Some d \<Longrightarrow> d \<in> set coll \<and> key d = i"
  by (auto simp: findOne_def find_Some_iff)

lemma findOne_distinct:
  "distinct (map key coll) \<Longrightarrow> d \<in> set coll \<Longrightarrow> findOne key coll (key d) = Some d"
  unfolding findOne_def
  by (induction coll) (auto simp: image_iff)

lemma findByIdStored_None:
  "findByIdStored key coll f = None \<longleftrightarrow> \<not> resolves key coll f"
  by (cases f) (simp_all add: findByIdStored_def resolves_def findOne_None)

lemma length_filter_key:
  assumes "distinct (map key coll)"
  shows "length (filter (\<lambda>d. key d \<in> A) coll) = card (A \<inter> key ` set coll)"
proof -
  have "length (filter (\<lambda>d. key d \<in> A) coll)
      = length (filter (\<lambda>i. i \<in> A) (map key coll))"
    by (simp add: filter_map comp_def)
  also have "\<dots> = card ({i. i \<in> A} \<inter> set (map key coll))"
    using assms by (rule distinct_length_filter)
  finally show ?thesis by simp
qed

lemma length_filter_missing:
  assumes d: "distinct (map key coll)" and b: "b \<in> set bs" and nb: "b \<notin> key ` set coll"
  shows "length (filter (\<lambda>d. key d \<in> set bs) coll) < length bs"
proof -
  have "set bs \<inter> key ` set coll \<subset> set bs"
    using b nb by auto
  then have "card (set bs \<inter> key ` set coll) < card (set bs)"
    by (simp add: psubset_card_mono)
  also have "\<dots> \<le> length bs"
    by (rule card_length)
  finally show ?thesis
    using d by (simp add: length_filter_key)
qed

lemma length_filter_all:
  assumes d: "distinct (map key coll)" and db: "distinct bs"
    and sub: "set bs \<subseteq> key ` set coll"
  shows "length (filter (\<lambda>d. key d \<in> set bs) coll) = length bs"
proof -
  have "set bs \<inter> key ` set coll = set bs"
    using sub by auto
  then show ?thesis
    using d db by (simp add: length_filter_key distinct_card)
qed

lemma price_priceOf:
  "distinct (map book_id (BookModel s)) \<Longrightarrow> d \<in> set (BookModel s)
     \<Longrightarrow> priceOf s (book_id d) = price d"
  by (simp add: priceOf_def findOne_distinct)

lemma sum_price_filter:
  assumes d: "distinct (map book_id (BookModel s))" and db: "distinct bs"
    and sub: "set bs \<subseteq> book_id ` set (BookModel s)"
  shows "sum_list (map (\<lambda>d. exactValue (price d))
           (filter (\<lambda>d. book_id d \<in> set bs) (BookModel s)))
       = exactTotal s bs"
proof -
  let ?ds = "filter (\<lambda>d. book_id d \<in> set bs) (BookModel s)"
  let ?ys = "map book_id ?ds"
  let ?f = "\<lambda>b. exactValue (priceOf s b)"
  have e: "map (\<lambda>d. exactValue (price d)) ?ds = map ?f ?ys"
    using d by (simp add: price_priceOf)
  have dy: "distinct ?ys"
    using d by (rule distinct_map_filter)
  have sy: "set ?ys = set bs"
    using sub by auto
  have "sum_list (map (\<lambda>d. exactValue (price d)) ?ds) = sum_list (map ?f ?ys)"
    by (simp only: e)
  also have "\<dots> = sum ?f (set ?ys)"
    using dy by (rule sum_list_distinct_conv_sum_set)
  also have "\<dots> = sum ?f (set bs)"
    by (simp only: sy)
  also have "\<dots> = sum_list (map ?f bs)"
    using db by (simp add: sum_list_distinct_conv_sum_set)
  finally show ?thesis
    by (simp add: exactTotal_def)
qed

lemma validateOrder_distinct:
  assumes d: "uniqueIds s"
    and u: "u \<in> user_id ` set (UserModel s)"
    and db: "distinct bs"
    and sub: "set bs \<subseteq> book_id ` set (BookModel s)"
    and int: "\<forall>b \<in> set bs. nonNegInteger (priceOf s b)"
    and le: "exactTotal s bs \<le> 2 ^ 53"
  shows "validateOrder s (Hex u) (map Hex bs) = Inr (Fin (exactTotal s bs))"
proof -
  let ?ds = "filter (\<lambda>d. book_id d \<in> set bs) (BookModel s)"
  from u obtain usr where usr: "findOne user_id (UserModel s) u = Some usr"
    using findOne_None [of user_id "UserModel s" u] by auto
  have d': "distinct (map book_id (BookModel s))"
    using d by (simp add: uniqueIds_def)
  have sum: "sum_list (map (\<lambda>d. exactValue (price d)) ?ds) = exactTotal s bs"
    using d' db sub by (rule sum_price_filter)
  have "\<forall>d \<in> set ?ds. nonNegInteger (price d)"
    using int d' by (auto simp: price_priceOf [symmetric])
  then have "foldl (\<lambda>total book. jsAdd total (price book)) (Fin 0) ?ds
      = Fin (0 + sum_list (map (\<lambda>d. exactValue (price d)) ?ds))"
    using le by (intro foldl_jsAdd_exact) (simp_all add: sum)
  then show ?thesis
    using usr length_filter_all [OF d' db sub]
    by (simp add: validateOrder_def findById_def findIn_def castIn_Hex sum)
qed

lemma validateOrder_Inl_status:
  "validateOrder s usr bks = Inl r \<Longrightarrow> status r = 500 \<or> status r = 404 \<or> status r = 400"
  by (auto simp: validateOrder_def split: sum.splits option.splits if_splits)

lemma validateOrder_Inl_body:
  "validateOrder s usr bks = Inl r \<Longrightarrow> body r \<noteq> OrderPlaced msg ord"
  by (auto simp: validateOrder_def split: sum.splits option.splits if_splits)

lemma newOrderModel_Inr:
  assumes "newOrderModel newId usr bks amount = Inr ord"
  shows "totalAmount ord = amount \<and> order_id ord = newId
       \<and> (\<exists>b. bks = [Hex b] \<and> books ord = Some b)
       \<and> (\<exists>u. usr = Hex u \<and> user ord = Some u)"
proof -
  from assms obtain u b t
    where c: "castObjectId ''user'' usr = Inr u" "castArrayToObjectId ''books'' bks = Inr b"
      "castNumber ''totalAmount'' amount = Inr t"
      and ord: "ord = \<lparr>order_id = newId, user = Some u, books = Some b, totalAmount = t\<rparr>"
    by (auto simp: newOrderModel_def Let_def split: sum.splits)
  from c(1) have usr: "usr = Hex u"
    by (cases usr) simp_all
  from c(2) obtain r where r: "bks = [r]"
    by (cases "(''books'', bks)" rule: castArrayToObjectId.cases) simp_all
  from c(2) r have b: "r = Hex b"
    by (cases r) simp_all
  from c(3) have t: "t = amount"
    by (cases amount) simp_all
  show ?thesis
    by (simp add: ord usr r b t)
qed

lemmas concrete_defs =
  placeOrder_def validateOrder_def findById_def findOne_def findIn_def newOrderModel_def
  listOrdersEnriched_def populate_def findByIdStored_def resolves_def uniqueIds_def
  priceOf_def exactTotal_def exactValue_def nonNegInteger_def Let_def
  db0_def db1_def db2_def U1_def B1_def B2_def B3_def B4_def

section \<open>Placing an order\<close>

text \<open>
  C1, as amended. When the user reference resolves to an existing user, the catalog's
  \<^verbatim>\<open>_id\<close>s are unique, the book references are pairwise DISTINCT identifiers that each
  resolve to an existing book, and the prices of these books are non-negative integers
  whose sum is at most \<open>2 ^ 53\<close> (so that every addition of the \<^verbatim>\<open>reduce\<close> is exact
  in binary64), \<open>placeOrder\<close> passes both checks with a total that is the exact sum of the
  prices of the referenced books, once each: it answers neither 404 nor 400, and an
  order it returns carries that total.  (Whether the order is then stored is the matter
  of C4.)
\<close>

theorem placeOrder_total_distinct:
  assumes "uniqueIds s"
    and "u \<in> user_id ` set (UserModel s)"
    and "distinct bs"
    and "set bs \<subseteq> book_id ` set (BookModel s)"
    and "\<forall>b \<in> set bs. nonNegInteger (priceOf s b)"
    and "exactTotal s bs \<le> 2 ^ 53"
  shows "validateOrder s (Hex u) (map Hex bs) = Inr (Fin (exactTotal s bs))
     \<and> status (fst (placeOrder newId s (Hex u) (map Hex bs))) \<noteq> 404
     \<and> status (fst (placeOrder newId s (Hex u) (map Hex bs))) \<noteq> 400
     \<and> (\<forall>msg ord. body (fst (placeOrder newId s (Hex u) (map Hex bs))) = OrderPlaced msg ord
           \<longrightarrow> totalAmount ord = Fin (exactTotal s bs))"
proof -
  have v: "validateOrder s (Hex u) (map Hex bs) = Inr (Fin (exactTotal s bs))"
    using assms by (rule validateOrder_distinct)
  show ?thesis
  proof (cases "newOrderModel newId (Hex u) (map Hex bs) (Fin (exactTotal s bs))")
    case (Inl e)
    with v show ?thesis by (simp add: placeOrder_def)
  next
    case (Inr ord)
    with v newOrderModel_Inr [OF Inr] show ?thesis by (simp add: placeOrder_def)
  qed
qed

text \<open>
  The amended C1 at a concrete database: two distinct books of prices 60 and 50 total
  110, and the order of one book of price 50 is returned with \<open>totalAmount = 50\<close>.
\<close>

theorem placeOrder_total_distinct_witness:
  "validateOrder db0 (Hex 1) [Hex 11, Hex 10] = Inr (Fin 110)
   \<and> (\<exists>msg ord. body (fst (placeOrder 100 db0 (Hex 1) [Hex 10])) = OrderPlaced msg ord
         \<and> totalAmount ord = Fin 50)"
proof -
  have h: "uniqueIds db0" "1 \<in> user_id ` set (UserModel db0)"
    by (simp_all add: concrete_defs round64_Ints)
  have two: "distinct [11, 10 :: nat]" "set [11, 10] \<subseteq> book_id ` set (BookModel db0)"
    "\<forall>b \<in> set [11, 10]. nonNegInteger (priceOf db0 b)" "exactTotal db0 [11, 10] \<le> 2 ^ 53"
    by (simp_all add: concrete_defs round64_Ints)
  have one: "distinct [10 :: nat]" "set [10] \<subseteq> book_id ` set (BookModel db0)"
    "\<forall>b \<in> set [10]. nonNegInteger (priceOf db0 b)" "exactTotal db0 [10] \<le> 2 ^ 53"
    by (simp_all add: concrete_defs round64_Ints)
  have b: "body (fst (placeOrder 100 db0 (Hex 1) [Hex 10]))
         = OrderPlaced ''Order placed successfully''
             \<lparr>order_id = 100, user = Some 1, books = Some 10, totalAmount = Fin 50\<rparr>"
    by (simp add: concrete_defs round64_Ints)
  have p: "exactTotal db0 [11, 10] = 110" "exactTotal db0 [10] = 50"
    by (simp_all add: concrete_defs round64_Ints)
  from placeOrder_total_distinct [OF h two, of 100] placeOrder_total_distinct [OF h one, of 100] b p
  show ?thesis by auto
qed

text \<open>
  Beyond that bound the total is not the exact sum: the prices \<open>2 ^ 53\<close> and 1 add up
  to \<open>2 ^ 53 + 1\<close>, which binary64 does not hold, and the handler's total is \<open>2 ^ 53\<close>.
\<close>

lemma validateOrder_rounds:
  "exactTotal db2 [12, 13] = 2 ^ 53 + 1
   \<and> validateOrder db2 (Hex 1) [Hex 12, Hex 13] = Inr (Fin (2 ^ 53))"
  using round64_tie by (simp add: concrete_defs round64_Ints)

text \<open>
  C1 as stated fails when a reference is repeated: user 1 and book 10 exist, and the
  order of book 10 twice is refused with 400 "Books not found", since the \<^verbatim>\<open>$in\<close>
  query returns the book once and \<open>1 \<noteq> 2\<close>.
\<close>

theorem placeOrder_duplicate_counterexample:
  "findById user_id (UserModel db0) (Hex 1) = Inr (Some U1)
   \<and> findById book_id (BookModel db0) (Hex 10) = Inr (Some B1)
   \<and> placeOrder 100 db0 (Hex 1) [Hex 10, Hex 10]
       = (Response 400 (Message ''Books not found''), db0)"
  by (simp add: concrete_defs round64_Ints)

text \<open>
  C2, as amended. When the user reference is a well-formed identifier that no user of the
  directory has, \<open>placeOrder\<close> answers 404 "User not found" and leaves the database as
  it was, whatever the book references are (well-formed or not, present or not).
\<close>

theorem placeOrder_user_not_found:
  assumes "u \<notin> user_id ` set (UserModel s)"
  shows "placeOrder newId s (Hex u) bks = (Response 404 (Message ''User not found''), s)"
proof -
  have "findOne user_id (UserModel s) u = None"
    using assms by (simp add: findOne_None)
  then show ?thesis
    by (simp add: placeOrder_def validateOrder_def findById_def)
qed

text \<open>The amended C2 at a concrete database, with a malformed book reference.\<close>

theorem placeOrder_user_not_found_witness:
  "2 \<notin> user_id ` set (UserModel db0)
   \<and> placeOrder 100 db0 (Hex 2) [Hex 10, Malformed ''nonexistent'']
       = (Response 404 (Message ''User not found''), db0)"
proof -
  have h: "2 \<notin> user_id ` set (UserModel db0)"
    by (simp add: concrete_defs round64_Ints)
  from h placeOrder_user_not_found [OF h] show ?thesis by simp
qed

text \<open>
  C2 as stated fails for a user reference that is no identifier: \<^verbatim>\<open>"nonexistent"\<close>
  resolves to no user, yet the answer is 500, because \<^verbatim>\<open>findById\<close> throws a
  \<^verbatim>\<open>CastError\<close> that the handler's \<^verbatim>\<open>catch\<close> turns into a 500.
\<close>

theorem placeOrder_malformed_user_counterexample:
  "findById user_id (UserModel db0) (Malformed ''nonexistent'') = Inl (CastError ''_id'')
   \<and> placeOrder 100 db0 (Malformed ''nonexistent'') [Hex 10]
       = (Response 500 (ErrorMessage (CastError ''_id'')), db0)"
  by (simp add: concrete_defs round64_Ints)

text \<open>
  C3, as amended. When the user reference resolves to an existing user, the catalog's
  \<^verbatim>\<open>_id\<close>s are unique, every book reference is a well-formed identifier and at least
  one of them is the \<^verbatim>\<open>_id\<close> of no book, \<open>placeOrder\<close> answers 400
  "Books not found" and leaves the database as it was.
\<close>

theorem placeOrder_books_not_found:
  assumes "uniqueIds s"
    and "u \<in> user_id ` set (UserModel s)"
    and "b \<in> set bs"
    and "b \<notin> book_id ` set (BookModel s)"
  shows "placeOrder newId s (Hex u) (map Hex bs) = (Response 400 (Message ''Books not found''), s)"
proof -
  from assms(2) obtain usr where "findOne user_id (UserModel s) u = Some usr"
    using findOne_None [of user_id "UserModel s" u] by auto
  moreover have "length (filter (\<lambda>d. book_id d \<in> set bs) (BookModel s)) < length bs"
    using assms(1,3,4) by (intro length_filter_missing) (simp_all add: uniqueIds_def)
  ultimately show ?thesis
    by (simp add: placeOrder_def validateOrder_def findById_def findIn_def castIn_Hex)
qed

text \<open>The amended C3 at a concrete database: book 12 is not in the catalog.\<close>

theorem placeOrder_books_not_found_witness:
  "placeOrder 100 db0 (Hex 1) [Hex 10, Hex 12] = (Response 400 (Message ''Books not found''), db0)"
proof -
  have h: "uniqueIds db0" "1 \<in> user_id ` set (UserModel db0)" "12 \<in> set [10, 12 :: nat]"
    "12 \<notin> book_id ` set (BookModel db0)"
    by (simp_all add: concrete_defs round64_Ints)
  from placeOrder_books_not_found [OF h, of 100] show ?thesis by simp
qed

text \<open>
  C3 as stated fails for a book reference that is no identifier: with an existing user
  and the books \<^verbatim>\<open>[B1, "nonexistent"]\<close> the \<^verbatim>\<open>$in\<close> query throws a
  \<^verbatim>\<open>CastError\<close>, and the answer is 500, not 400.
\<close>

theorem placeOrder_malformed_book_counterexample:
  "findById user_id (UserModel db0) (Hex 1) = Inr (Some U1)
   \<and> findById book_id (BookModel db0) (Malformed ''nonexistent'') = Inl (CastError ''_id'')
   \<and> placeOrder 100 db0 (Hex 1) [Hex 10, Malformed ''nonexistent'']
       = (Response 500 (ErrorMessage (CastError ''_id'')), db0)"
  by (simp add: concrete_defs round64_Ints)

text \<open>
  C4. With user U1 and the books B1 (price 50) and B2 (price 60) in the database, the
  request \<open>placeOrder(U1, [B1, B2])\<close> passes both checks with the total 110, but the
  order is not stored and the answer is not 201: the schema's \<^verbatim>\<open>books\<close> is one
  \<^verbatim>\<open>ObjectId\<close>, the two-element array cannot be cast to it, \<^verbatim>\<open>save()\<close> rejects
  and the handler answers 500.
\<close>

theorem placeOrder_two_books_rejected:
  "validateOrder db0 (Hex 1) [Hex 10, Hex 11] = Inr (Fin 110)
   \<and> placeOrder 100 db0 (Hex 1) [Hex 10, Hex 11]
       = (Response 500 (ErrorMessage (ValidationError [''books''])), db0)"
  by (simp add: concrete_defs round64_Ints)

text \<open>
  C9. With an existing user and an empty list of books, no check rejects the request
  (nothing tests for emptiness) and the total is 0; but the empty array cannot be cast
  to the one \<^verbatim>\<open>ObjectId\<close> of the schema's \<^verbatim>\<open>books\<close> either, so \<^verbatim>\<open>save()\<close>
  rejects, no order is stored and the answer is 500.
\<close>

theorem placeOrder_empty_books_rejected:
  "validateOrder db0 (Hex 1) [] = Inr (Fin 0)
   \<and> placeOrder 100 db0 (Hex 1) []
       = (Response 500 (ErrorMessage (ValidationError [''books''])), db0)"
  by (simp add: concrete_defs round64_Ints)

text \<open>
  C7. A \<open>placeOrder\<close> that answers 201 has appended exactly one order to the order
  store and left the user directory and the book catalog as they were; one that fails a
  check (404 or 400) has left the whole database as it was, and so has every request
  that does not answer 201.
\<close>

theorem placeOrder_frame:
  assumes "placeOrder newId s usr bks = (r, s')"
  shows "(status r = 201 \<longrightarrow>
            (\<exists>newOrder. OrderModel s' = OrderModel s @ [newOrder])
            \<and> UserModel s' = UserModel s \<and> BookModel s' = BookModel s)
       \<and> (status r = 404 \<or> status r = 400 \<longrightarrow> s' = s)
       \<and> (status r \<noteq> 201 \<longrightarrow> s' = s)"
proof (cases "validateOrder s usr bks")
  case (Inl a)
  with assms validateOrder_Inl_status [OF Inl] show ?thesis
    by (auto simp: placeOrder_def)
next
  case (Inr amount)
  with assms show ?thesis
    by (auto simp: placeOrder_def split: sum.splits)
qed

text \<open>C7 at a concrete database: one successful request and one for each failed check.\<close>

theorem placeOrder_frame_witness:
  "placeOrder 100 db0 (Hex 1) [Hex 10]
     = (Response 201 (OrderPlaced ''Order placed successfully''
          \<lparr>order_id = 100, user = Some 1, books = Some 10, totalAmount = Fin 50\<rparr>),
        db0\<lparr>OrderModel := [\<lparr>order_id = 100, user = Some 1, books = Some 10, totalAmount = Fin 50\<rparr>]\<rparr>)
   \<and> placeOrder 100 db0 (Hex 2) [Hex 10] = (Response 404 (Message ''User not found''), db0)
   \<and> placeOrder 100 db0 (Hex 1) [Hex 12] = (Response 400 (Message ''Books not found''), db0)
   \<and> UserModel (snd (placeOrder 100 db0 (Hex 1) [Hex 10])) = UserModel db0
   \<and> BookModel (snd (placeOrder 100 db0 (Hex 1) [Hex 10])) = BookModel db0
   \<and> (\<exists>newOrder. OrderModel (snd (placeOrder 100 db0 (Hex 1) [Hex 10]))
         = OrderModel db0 @ [newOrder])
   \<and> snd (placeOrder 100 db0 (Hex 2) [Hex 10]) = db0
   \<and> snd (placeOrder 100 db0 (Hex 1) [Hex 12]) = db0"
proof -
  have a: "placeOrder 100 db0 (Hex 1) [Hex 10]
     = (Response 201 (OrderPlaced ''Order placed successfully''
          \<lparr>order_id = 100, user = Some 1, books = Some 10, totalAmount = Fin 50\<rparr>),
        db0\<lparr>OrderModel := [\<lparr>order_id = 100, user = Some 1, books = Some 10, totalAmount = Fin 50\<rparr>]\<rparr>)"
    by (simp add: concrete_defs round64_Ints)
  have b: "placeOrder 100 db0 (Hex 2) [Hex 10] = (Response 404 (Message ''User not found''), db0)"
    by (simp add: concrete_defs round64_Ints)
  have c: "placeOrder 100 db0 (Hex 1) [Hex 12] = (Response 400 (Message ''Books not found''), db0)"
    by (simp add: concrete_defs round64_Ints)
  from placeOrder_frame [OF a] placeOrder_frame [OF b] placeOrder_frame [OF c] a b c
  show ?thesis by simp
qed

section \<open>Listing orders\<close>

text \<open>
  C5. For every state of the order store, \<open>listOrdersEnriched\<close> answers 200 with a
  sequence that holds one enriched record per stored order, in the order of the store:
  its length is the number of stored orders, and the record at each position is the
  enrichment of the order at that position (no filtering, no pagination).
\<close>

theorem listOrdersEnriched_count:
  "\<exists>ps. fst (listOrdersEnriched s) = Response 200 (Orders ps)
      \<and> length ps = length (OrderModel s)
      \<and> map populated_id ps = map order_id (OrderModel s)"
  by (simp add: listOrdersEnriched_def populate_def comp_def)

text \<open>
  C6. \<open>listOrdersEnriched\<close> always answers 200 with one record per stored order, and
  in the record of an order whose user reference does not resolve (it is absent, or no
  user has it) the \<^verbatim>\<open>user\<close> field is \<^verbatim>\<open>null\<close>; likewise for the \<^verbatim>\<open>books\<close>
  field when the book reference does not resolve.
\<close>

theorem listOrdersEnriched_unresolved_null:
  "\<exists>ps. listOrdersEnriched s = (Response 200 (Orders ps), s)
      \<and> length ps = length (OrderModel s)
      \<and> (\<forall>i < length (OrderModel s).
            populated_id (ps ! i) = order_id (OrderModel s ! i)
          \<and> (\<not> resolves user_id (UserModel s) (user (OrderModel s ! i))
                \<longrightarrow> populated_user (ps ! i) = None)
          \<and> (\<not> resolves book_id (BookModel s) (books (OrderModel s ! i))
                \<longrightarrow> populated_books (ps ! i) = None))"
  by (simp add: listOrdersEnriched_def populate_def findByIdStored_None)

text \<open>
  C6 at a concrete database: the second order refers to a user and a book that do not
  exist, the third has no references at all; all three orders are listed.
\<close>

theorem listOrdersEnriched_unresolved_null_witness:
  "\<not> resolves user_id (UserModel db1) (user (OrderModel db1 ! 1))
   \<and> \<not> resolves book_id (BookModel db1) (books (OrderModel db1 ! 1))
   \<and> \<not> resolves user_id (UserModel db1) (user (OrderModel db1 ! 2))
   \<and> \<not> resolves book_id (BookModel db1) (books (OrderModel db1 ! 2))
   \<and> listOrdersEnriched db1 =
       (Response 200 (Orders
          [\<lparr>populated_id = 100, populated_user = Some U1, populated_books = Some B1,
             populated_totalAmount = Fin 50\<rparr>,
           \<lparr>populated_id = 101, populated_user = None, populated_books = None,
             populated_totalAmount = Fin 60\<rparr>,
           \<lparr>populated_id = 102, populated_user = None, populated_books = None,
             populated_totalAmount = Fin 0\<rparr>]), db1)"
proof -
  have l: "listOrdersEnriched db1 =
       (Response 200 (Orders
          [\<lparr>populated_id = 100, populated_user = Some U1, populated_books = Some B1,
             populated_totalAmount = Fin 50\<rparr>,
           \<lparr>populated_id = 101, populated_user = None, populated_books = None,
             populated_totalAmount = Fin 60\<rparr>,
           \<lparr>populated_id = 102, populated_user = None, populated_books = None,
             populated_totalAmount = Fin 0\<rparr>]), db1)"
    by (simp add: concrete_defs round64_Ints)
  have r: "\<not> resolves user_id (UserModel db1) (user (OrderModel db1 ! 1))"
    "\<not> resolves book_id (BookModel db1) (books (OrderModel db1 ! 1))"
    "\<not> resolves user_id (UserModel db1) (user (OrderModel db1 ! 2))"
    "\<not> resolves book_id (BookModel db1) (books (OrderModel db1 ! 2))"
    by (simp_all add: concrete_defs round64_Ints)
  from listOrdersEnriched_unresolved_null [of db1] l r show ?thesis by simp
qed

text \<open>
  C8. \<open>listOrdersEnriched\<close> leaves the database as it was, so a second call right
  after the first gives the same response; in it, every record has the
  \<^verbatim>\<open>totalAmount\<close> and \<^verbatim>\<open>_id\<close> of the stored order at its position, and its
  \<^verbatim>\<open>user\<close> and \<^verbatim>\<open>books\<close> are what the stored references resolve to.
\<close>

theorem listOrdersEnriched_twice:
  "listOrdersEnriched (snd (listOrdersEnriched s)) = listOrdersEnriched s
   \<and> (\<exists>ps. fst (listOrdersEnriched s) = Response 200 (Orders ps)
         \<and> map populated_totalAmount ps = map totalAmount (OrderModel s)
         \<and> map populated_id ps = map order_id (OrderModel s)
         \<and> map populated_user ps
             = map (\<lambda>ord. findByIdStored user_id (UserModel s) (user ord)) (OrderModel s)
         \<and> map populated_books ps
             = map (\<lambda>ord. findByIdStored book_id (BookModel s) (books ord)) (OrderModel s))"
  by (simp add: listOrdersEnriched_def populate_def comp_def)

text \<open>
  C10. An order holds at most one book reference: an order that \<open>placeOrder\<close> returns
  was requested with exactly one book reference, which is its \<^verbatim>\<open>books\<close>; and in
  every record of \<open>listOrdersEnriched\<close> the \<^verbatim>\<open>books\<close> field is \<^verbatim>\<open>null\<close> or one
  book of the catalog, never a collection.
\<close>

theorem books_single_reference:
  "(body (fst (placeOrder newId s usr bks)) = OrderPlaced msg ord
      \<longrightarrow> (\<exists>b. bks = [Hex b] \<and> books ord = Some b))
   \<and> (\<exists>ps. fst (listOrdersEnriched s) = Response 200 (Orders ps)
         \<and> (\<forall>p \<in> set ps. populated_books p = None
               \<or> (\<exists>d \<in> set (BookModel s). populated_books p = Some d)))"
proof -
  have "body (fst (placeOrder newId s usr bks)) = OrderPlaced msg ord
      \<Longrightarrow> \<exists>b. bks = [Hex b] \<and> books ord = Some b"
    by (auto simp: placeOrder_def split: sum.splits
        dest: newOrderModel_Inr validateOrder_Inl_body)
  moreover have "populated_books (populate s x) = None
      \<or> (\<exists>d \<in> set (BookModel s). populated_books (populate s x) = Some d)" for x
    by (cases "books x"; cases "findOne book_id (BookModel s) (the (books x))")
      (auto simp: populate_def findByIdStored_def dest: findOne_Some)
  ultimately show ?thesis
    by (auto simp: listOrdersEnriched_def)
qed

text \<open>C10 at a concrete database with three stored orders.\<close>

theorem books_single_reference_witness:
  "body (fst (placeOrder 103 db1 (Hex 1) [Hex 10]))
     = OrderPlaced ''Order placed successfully''
         \<lparr>order_id = 103, user = Some 1, books = Some 10, totalAmount = Fin 50\<rparr>
   \<and> (\<exists>b. [Hex 10] = [Hex b]
         \<and> books \<lparr>order_id = 103, user = Some 1, books = Some 10, totalAmount = Fin 50\<rparr> = Some b)
   \<and> (\<exists>ps. fst (listOrdersEnriched db1) = Response 200 (Orders ps)
         \<and> length ps = 3
         \<and> (\<forall>p \<in> set ps. populated_books p = None
               \<or> (\<exists>d \<in> set (BookModel db1). populated_books p = Some d)))"
proof -
  have a: "body (fst (placeOrder 103 db1 (Hex 1) [Hex 10]))
     = OrderPlaced ''Order placed successfully''
         \<lparr>order_id = 103, user = Some 1, books = Some 10, totalAmount = Fin 50\<rparr>"
    by (simp add: concrete_defs round64_Ints)
  have l: "\<exists>ps. fst (listOrdersEnriched db1) = Response 200 (Orders ps) \<and> length ps = 3"
    by (simp add: listOrdersEnriched_def db1_def)
  from books_single_reference [of 103 db1 "Hex 1" "[Hex 10]" "''Order placed successfully''"
      "\<lparr>order_id = 103, user = Some 1, books = Some 10, totalAmount = Fin 50\<rparr>"] a l
  show ?thesis by (auto simp: listOrdersEnriched_def)
qed

end
